theory Spec2Isabelle
  imports Main "HOL-Library.Word"
begin

section \<open>Data model\<close>

text \<open>
  The two commands of the package \<open>certificate\<close> (\<open>verify\<close> and \<open>create\<close>) are glue
  around collaborators that live outside the two source files: the Go standard library
  (\<open>ioutil\<close>, \<open>pem\<close>, \<open>x509\<close>), the flag library and the sibling packages \<open>errs\<close>,
  \<open>keys\<close>, \<open>reader\<close> and \<open>stepx509\<close>. The embedding keeps every collaborator as a field
  of a record \<open>world\<close>, so that each theorem holds for every behaviour of the
  collaborators, and records every call that touches the outside (files, terminal, key
  generation, path validation) in a trace of events.
\<close>

type_synonym bytes = "8 word list"

text \<open>\<open>pem.Block\<close>: the type line, the headers and the decoded payload.\<close>

record block =
  Type :: string
  Headers :: "(string \<times> string) list"
  Bytes :: bytes

text \<open>
  Go \<open>error\<close> values. \<open>Lib\<close> is an error produced by a collaborator; the other
  constructors are the ways in which the two source files build or wrap an error
  (\<open>errors.Errorf\<close>, \<open>errors.WithStack\<close>, \<open>errors.Wrapf\<close> and the helpers of
  package \<open>errs\<close>, which only format a message).
\<close>

datatype err =
    Lib string
  | Errorf string
  | WithStack err
  | Wrapf err string
  | FileError err string
  | RequiredWithFlag string string
  | EqualArguments string string
  | InvalidFlagValue string string string
  | ProfileError

text \<open>
  What an action does in the end: it returns \<open>nil\<close>, it returns an error, or it
  panics because a method that reads its receiver is called through a nil pointer.
\<close>

datatype outcome = Ok | Failed err | NilDereference

text \<open>\<open>cli.Context\<close>: the positional arguments and the resolved flag values.\<close>

record cli_context =
  Args :: "string list"
  Bool_flag :: "string \<Rightarrow> bool"
  String_flag :: "string \<Rightarrow> string"

text \<open>\<open>cli.Args.Get\<close>: the n-th argument, the empty string when there is none.\<close>

definition Get :: "string list \<Rightarrow> nat \<Rightarrow> string" where
  "Get as n = (if n < length as then as ! n else [])"

text \<open>\<open>x509.VerifyOptions\<close>, the fields the source sets. A nil pool is \<open>None\<close>.\<close>

record 'cert verify_options =
  DNSName :: string
  Roots :: "'cert list option"
  Intermediates :: "'cert list"

text \<open>The only option the source passes to the password prompt.\<close>

datatype prompt_option = RetryOnEmpty

text \<open>Calls that reach outside the process, in the order in which they are made.\<close>

datatype ('cert, 'key, 'profile) event =
    EReadFile string
  | EReadCertPool string
  | EVerify 'cert "'cert verify_options"
  | EGenerateDefaultKey
  | ECreateCertificateRequest string 'key
  | ELoadIdentityFromDisk string string
  | ENewLeafProfile string 'cert 'key
  | ENewIntermediateProfile string 'cert 'key
  | ENewRootProfile string
  | ECreateCertificate 'profile
  | EWriteFile string bytes nat
  | EReadPasswordSubtle string string prompt_option
  | EWritePrivateKey 'key string string

text \<open>
  The collaborators. A function that returns \<open>(value, error)\<close> and whose error the
  source checks before using the value is a sum; \<open>ReadCertPool\<close> keeps Go's pair,
  because the source stores the pool whatever the error is. An \<open>error\<close> result alone
  is an \<open>err option\<close>. \<open>AppendCertsFromPEM\<close> takes the pool it is called on and
  returns the pool afterwards with its boolean result.
\<close>

record ('cert, 'key, 'profile) world =
  NumberOfArguments :: "cli_context \<Rightarrow> nat \<Rightarrow> err option"
  ReadFile :: "string \<Rightarrow> err + bytes"
  pemDecode :: "bytes \<Rightarrow> block option \<times> bytes"
  EncodeToMemory :: "block \<Rightarrow> bytes"
  ParseCertificate :: "bytes \<Rightarrow> err + 'cert"
  AppendCertsFromPEM :: "'cert list \<Rightarrow> bytes \<Rightarrow> 'cert list \<times> bool"
  ReadCertPool :: "string \<Rightarrow> 'cert list option \<times> err option"
  Verify :: "'cert \<Rightarrow> 'cert verify_options \<Rightarrow> err option"
  Title :: "string \<Rightarrow> string"
  GenerateDefaultKey :: "err + 'key"
  CreateCertificateRequest :: "string \<Rightarrow> 'key \<Rightarrow> err + bytes"
  LoadIdentityFromDisk :: "string \<Rightarrow> string \<Rightarrow> err + ('cert \<times> 'key)"
  NewLeafProfile :: "string \<Rightarrow> 'cert \<Rightarrow> 'key \<Rightarrow> err + 'profile"
  NewIntermediateProfile :: "string \<Rightarrow> 'cert \<Rightarrow> 'key \<Rightarrow> err + 'profile"
  NewRootProfile :: "string \<Rightarrow> err + 'profile"
  CreateCertificate :: "'profile \<Rightarrow> err + bytes"
  SubjectPrivateKey :: "'profile \<Rightarrow> 'key"
  WriteFile :: "string \<Rightarrow> bytes \<Rightarrow> nat \<Rightarrow> err option"
  ReadPasswordSubtle :: "string \<Rightarrow> string \<Rightarrow> prompt_option \<Rightarrow> err + string"
  WritePrivateKey :: "'key \<Rightarrow> string \<Rightarrow> string \<Rightarrow> err option"

text \<open>A string between single quotes, as \<open>'%s'\<close> formats it.\<close>

definition quoted :: "string \<Rightarrow> string" where
  "quoted s = CHR 0x27 # s @ [CHR 0x27]"

section \<open>The verify action\<close>

text \<open>
  The loop of \<open>verifyAction\<close> (verify.go, lines 71 to 87) with its three variables
  \<open>crtBytes\<close>, \<open>crt\<close> and \<open>ipems\<close>. It ends with \<open>Inl\<close> at the \<open>return\<close> inside the
  loop and with \<open>Inr\<close> when the loop is left. Nothing in the source bounds the number
  of iterations, so the loop is a partial function: \<open>None\<close> is a run that never leaves it.
\<close>

partial_function (option) chainLoop ::
  "('cert, 'key, 'profile) world \<Rightarrow> bytes \<Rightarrow> 'cert option \<Rightarrow> bytes
     \<Rightarrow> (err + 'cert option \<times> bytes) option" where
  "chainLoop w crtBytes crt ipems =
     (if length crtBytes > 0 then
        (case pemDecode w crtBytes of
           (None, rest) \<Rightarrow> Some (Inr (crt, ipems))
         | (Some blk, rest) \<Rightarrow>
             if Type blk \<noteq> ''CERTIFICATE'' then chainLoop w rest crt ipems
             else (case crt of
                     None \<Rightarrow>
                       (case ParseCertificate w (Bytes blk) of
                          Inl e \<Rightarrow> Some (Inl (WithStack e))
                        | Inr c \<Rightarrow> chainLoop w rest (Some c) ipems)
                   | Some c \<Rightarrow> chainLoop w rest crt (ipems @ EncodeToMemory w blk)))
      else Some (Inr (crt, ipems)))"

text \<open>
  Lines 88 to 90: the intermediate pool starts empty (\<open>x509.NewCertPool()\<close>) and
  \<open>AppendCertsFromPEM\<close> is only called when \<open>ipems\<close> is not empty.
\<close>

definition intermediateList ::
  "('cert, 'key, 'profile) world \<Rightarrow> string \<Rightarrow> bytes \<Rightarrow> err + 'cert list" where
  "intermediateList w crtFile ipems =
     (if length ipems > 0 \<and> \<not> snd (AppendCertsFromPEM w [] ipems)
      then Inl (Errorf (''failure creating intermediate list from certificate '' @ quoted crtFile))
      else Inr (if length ipems > 0 then fst (AppendCertsFromPEM w [] ipems) else []))"

text \<open>
  Lines 92 to 103: the root pool stays nil for the empty string; otherwise it is what
  \<open>ReadCertPool\<close> returned. The error of \<open>ReadCertPool\<close> is wrapped and the wrapped
  error is dropped: the statement on line 101 has no \<open>return\<close>.
\<close>

definition loadRoots ::
  "('cert, 'key, 'profile) world \<Rightarrow> string
     \<Rightarrow> ('cert, 'key, 'profile) event list \<times> 'cert list option" where
  "loadRoots w roots =
     (if roots \<noteq> [] then ([EReadCertPool roots], fst (ReadCertPool w roots))
      else ([], None))"

text \<open>
  Lines 105 to 115: \<open>crt.Verify(opts)\<close>. \<open>Verify\<close> reads the fields of its receiver, so
  a nil \<open>crt\<close> is a nil-pointer panic.
\<close>

definition runVerify ::
  "('cert, 'key, 'profile) world \<Rightarrow> 'cert option \<Rightarrow> 'cert verify_options
     \<Rightarrow> ('cert, 'key, 'profile) event list \<times> outcome" where
  "runVerify w crt opts =
     (case crt of
        None \<Rightarrow> ([], NilDereference)
      | Some c \<Rightarrow>
          ([EVerify c opts],
           (case Verify w c opts of
              Some e \<Rightarrow> Failed (Wrapf e ''failed to verify certificate'')
            | None \<Rightarrow> Ok)))"

text \<open>What follows the loop (lines 88 to 115), given the loop's result.\<close>

definition afterLoop ::
  "('cert, 'key, 'profile) world \<Rightarrow> cli_context \<Rightarrow> string \<Rightarrow> (err + 'cert option \<times> bytes)
     \<Rightarrow> ('cert, 'key, 'profile) event list \<times> outcome" where
  "afterLoop w ctx crtFile r =
     (case r of
        Inl e \<Rightarrow> ([EReadFile crtFile], Failed e)
      | Inr (crt, ipems) \<Rightarrow>
          (case intermediateList w crtFile ipems of
             Inl e \<Rightarrow> ([EReadFile crtFile], Failed e)
           | Inr intermediatePool \<Rightarrow>
               (let host = String_flag ctx ''host'';
                    roots = String_flag ctx ''roots'';
                    (ev1, rootPool) = loadRoots w roots;
                    opts = \<lparr>DNSName = host, Roots = rootPool,
                            Intermediates = intermediatePool\<rparr>;
                    (ev2, out) = runVerify w crt opts
                in (EReadFile crtFile # ev1 @ ev2, out))))"

text \<open>\<open>verifyAction\<close> (lines 51 to 116).\<close>

definition verifyAction ::
  "('cert, 'key, 'profile) world \<Rightarrow> cli_context
     \<Rightarrow> (('cert, 'key, 'profile) event list \<times> outcome) option" where
  "verifyAction w ctx =
     (case NumberOfArguments w ctx 1 of
        Some e \<Rightarrow> Some ([], Failed e)
      | None \<Rightarrow>
          (let crtFile = Get (Args ctx) 0 in
           case ReadFile w crtFile of
             Inl e \<Rightarrow> Some ([EReadFile crtFile], Failed (FileError e crtFile))
           | Inr crtBytes \<Rightarrow>
               map_option (afterLoop w ctx crtFile) (chainLoop w crtBytes None [])))"

text \<open>
  The blocks of a bundle, as the successive calls of \<open>pem.Decode\<close> in a loop
  \<open>for len(data) > 0\<close> deliver them: the sequence ends at the end of the data or
  where \<open>pem.Decode\<close> finds no further block.
\<close>

inductive pemBlocks ::
  "('cert, 'key, 'profile) world \<Rightarrow> bytes \<Rightarrow> block list \<Rightarrow> bool" where
  pemBlocks_empty: "length data = 0 \<Longrightarrow> pemBlocks w data []"
| pemBlocks_none: "length data > 0 \<Longrightarrow> pemDecode w data = (None, rest) \<Longrightarrow> pemBlocks w data []"
| pemBlocks_block: "length data > 0 \<Longrightarrow> pemDecode w data = (Some blk, rest)
     \<Longrightarrow> pemBlocks w rest blks \<Longrightarrow> pemBlocks w data (blk # blks)"

text \<open>
  The contract of \<open>pem.Decode\<close> on which the termination of the loop rests: a block
  that was found has been removed from the remaining data.
\<close>

definition decode_consumes :: "('cert, 'key, 'profile) world \<Rightarrow> bool" where
  "decode_consumes w =
     (\<forall>data blk rest. pemDecode w data = (Some blk, rest) \<longrightarrow> length rest < length data)"

definition isCertificate :: "block \<Rightarrow> bool" where
  "isCertificate blk = (Type blk = ''CERTIFICATE'')"

section \<open>The create action\<close>

text \<open>
  The sentence both messages of \<open>loadIssuerIdentity\<close> end with; \<open>%s\<close> is
  \<open>strings.Title(profile)\<close>.
\<close>

definition flagsRequired :: "('cert, 'key, 'profile) world \<Rightarrow> string \<Rightarrow> string" where
  "flagsRequired w profile =
     [CHR 0x0A, CHR 0x0A] @ ''Flags '' @ quoted ''--ca'' @ '' and '' @ quoted ''--ca-key''
       @ '' are required when creating a '' @ Title w profile @ '' x509 Certificate.''"

text \<open>
  \<open>loadIssuerIdentity\<close> (lines 231 to 253). The closure handed to
  \<open>LoadIdentityFromDisk\<close> only forwards to the password prompt; whether and when it is
  called is up to \<open>LoadIdentityFromDisk\<close>, so it is part of that collaborator.
\<close>

definition loadIssuerIdentity ::
  "('cert, 'key, 'profile) world \<Rightarrow> string \<Rightarrow> string \<Rightarrow> string
     \<Rightarrow> ('cert, 'key, 'profile) event list \<times> (err + 'cert \<times> 'key)" where
  "loadIssuerIdentity w profile caPath caKeyPath =
     (if caPath = [] then
        ([], Inl (Errorf (''Missing value for flag '' @ quoted ''--ca'' @ ''.''
                            @ flagsRequired w profile)))
      else if caKeyPath = [] then
        ([], Inl (Errorf (''Missing value for flag '' @ quoted ''--ca-key'' @ ''.''
                            @ flagsRequired w profile)))
      else ([ELoadIdentityFromDisk caPath caKeyPath], LoadIdentityFromDisk w caPath caKeyPath))"

text \<open>The inner \<open>switch prof\<close> (lines 164 to 195).\<close>

definition selectProfile ::
  "('cert, 'key, 'profile) world \<Rightarrow> string \<Rightarrow> string \<Rightarrow> string \<Rightarrow> string
     \<Rightarrow> ('cert, 'key, 'profile) event list \<times> (err + 'profile)" where
  "selectProfile w prof subject caPath caKeyPath =
     (if prof = ''leaf'' then
        (case loadIssuerIdentity w prof caPath caKeyPath of
           (ev, Inl e) \<Rightarrow> (ev, Inl (WithStack e))
         | (ev, Inr (issCrt, issKey)) \<Rightarrow>
             (ev @ [ENewLeafProfile subject issCrt issKey],
              (case NewLeafProfile w subject issCrt issKey of
                 Inl e \<Rightarrow> Inl (WithStack e)
               | Inr profile \<Rightarrow> Inr profile)))
      else if prof = ''intermediate-ca'' then
        (case loadIssuerIdentity w prof caPath caKeyPath of
           (ev, Inl e) \<Rightarrow> (ev, Inl (WithStack e))
         | (ev, Inr (issCrt, issKey)) \<Rightarrow>
             (ev @ [ENewIntermediateProfile subject issCrt issKey],
              (case NewIntermediateProfile w subject issCrt issKey of
                 Inl e \<Rightarrow> Inl (WithStack e)
               | Inr profile \<Rightarrow> Inr profile)))
      else if prof = ''root-ca'' then
        ([ENewRootProfile subject],
         (case NewRootProfile w subject of
            Inl e \<Rightarrow> Inl (WithStack e)
          | Inr profile \<Rightarrow> Inr profile))
      else ([], Inl (InvalidFlagValue ''profile'' prof ''leaf, intermediate-ca, root-ca'')))"

text \<open>
  The outer \<open>switch typ\<close> (lines 137 to 210): the private key and the PEM block of the
  certificate or of the request, or the error the action returns.
\<close>

definition generate ::
  "('cert, 'key, 'profile) world \<Rightarrow> string \<Rightarrow> string \<Rightarrow> string \<Rightarrow> string \<Rightarrow> string
     \<Rightarrow> ('cert, 'key, 'profile) event list \<times> (err + 'key \<times> block)" where
  "generate w typ prof subject caPath caKeyPath =
     (if typ = ''x509-csr'' then
        (case GenerateDefaultKey w of
           Inl e \<Rightarrow> ([EGenerateDefaultKey], Inl (WithStack e))
         | Inr priv \<Rightarrow>
             ([EGenerateDefaultKey, ECreateCertificateRequest subject priv],
              (case CreateCertificateRequest w subject priv of
                 Inl e \<Rightarrow> Inl (WithStack e)
               | Inr csrBytes \<Rightarrow>
                   Inr (priv, \<lparr>Type = ''CSR'', Headers = [], Bytes = csrBytes\<rparr>))))
      else if typ = ''x509'' then
        (case selectProfile w prof subject caPath caKeyPath of
           (ev, Inl e) \<Rightarrow> (ev, Inl e)
         | (ev, Inr profile) \<Rightarrow>
             (ev @ [ECreateCertificate profile],
              (case CreateCertificate w profile of
                 Inl e \<Rightarrow> Inl (WithStack e)
               | Inr crtBytes \<Rightarrow>
                   Inr (SubjectPrivateKey w profile,
                        \<lparr>Type = ''CERTIFICATE'', Headers = [], Bytes = crtBytes\<rparr>))))
      else if typ = ''ssh'' then
        ([], Inl (Errorf ''implementation incomplete! Come back later ...''))
      else ([], Inl (InvalidFlagValue ''type'' typ ''x509, ssh'')))"

text \<open>The prompt of line 220.\<close>

definition encryptPrompt :: "string \<Rightarrow> string" where
  "encryptPrompt keyFile =
     ''Password with which to encrypt private key file `'' @ keyFile @ ''`: ''"

text \<open>
  Lines 217 to 224: \<open>pass\<close> is the empty string unless the prompt is used.
\<close>

definition askPassword ::
  "('cert, 'key, 'profile) world \<Rightarrow> bool \<Rightarrow> string
     \<Rightarrow> ('cert, 'key, 'profile) event list \<times> (err + string)" where
  "askPassword w usePassword keyFile =
     (if usePassword then
        ([EReadPasswordSubtle (encryptPrompt keyFile) ''Password'' RetryOnEmpty],
         (case ReadPasswordSubtle w (encryptPrompt keyFile) ''Password'' RetryOnEmpty of
            Inl e \<Rightarrow> Inl (WithStack e)
          | Inr pass \<Rightarrow> Inr pass))
      else ([], Inr []))"

text \<open>
  The output stage (lines 212 to 228). The mode \<open>0600\<close> is octal: 384.
\<close>

definition writeOutputs ::
  "('cert, 'key, 'profile) world \<Rightarrow> string \<Rightarrow> string \<Rightarrow> bool \<Rightarrow> 'key \<Rightarrow> block
     \<Rightarrow> ('cert, 'key, 'profile) event list \<times> outcome" where
  "writeOutputs w crtFile keyFile usePassword priv pubPEM =
     (case WriteFile w crtFile (EncodeToMemory w pubPEM) 384 of
        Some e \<Rightarrow>
          ([EWriteFile crtFile (EncodeToMemory w pubPEM) 384], Failed (FileError e crtFile))
      | None \<Rightarrow>
          (case askPassword w usePassword keyFile of
             (ev, Inl e) \<Rightarrow>
               (EWriteFile crtFile (EncodeToMemory w pubPEM) 384 # ev, Failed e)
           | (ev, Inr pass) \<Rightarrow>
               (EWriteFile crtFile (EncodeToMemory w pubPEM) 384 # ev
                  @ [EWritePrivateKey priv pass keyFile],
                (case WritePrivateKey w priv pass keyFile of
                   Some e \<Rightarrow> Failed (WithStack e)
                 | None \<Rightarrow> Ok))))"

text \<open>
  Lines 107 to 115: \<open>usePassword\<close>, or the error for \<open>--no-password\<close> without
  \<open>--insecure\<close>.
\<close>

definition usePasswordOf :: "cli_context \<Rightarrow> err + bool" where
  "usePasswordOf ctx =
     (if Bool_flag ctx ''no-password'' then
        (if Bool_flag ctx ''insecure'' then Inr False
         else Inl (RequiredWithFlag ''insecure'' ''no-password''))
      else Inr True)"

text \<open>Lines 124 and 128 to 130: the type after the \<open>--csr\<close> override.\<close>

definition typOf :: "cli_context \<Rightarrow> string" where
  "typOf ctx = (if Bool_flag ctx ''csr'' then ''x509-csr'' else String_flag ctx ''type'')"

text \<open>\<open>createAction\<close> (lines 102 to 229).\<close>

definition createAction ::
  "('cert, 'key, 'profile) world \<Rightarrow> cli_context
     \<Rightarrow> ('cert, 'key, 'profile) event list \<times> outcome" where
  "createAction w ctx =
     (case NumberOfArguments w ctx 3 of
        Some e \<Rightarrow> ([], Failed e)
      | None \<Rightarrow>
          (case usePasswordOf ctx of
             Inl e \<Rightarrow> ([], Failed e)
           | Inr usePassword \<Rightarrow>
               (let subject = Get (Args ctx) 0;
                    crtFile = Get (Args ctx) 1;
                    keyFile = Get (Args ctx) 2
                in if crtFile = keyFile
                   then ([], Failed (EqualArguments ''CRT_FILE'' ''KEY_FILE''))
                   else (case generate w (typOf ctx) (String_flag ctx ''profile'') subject
                                 (String_flag ctx ''ca'') (String_flag ctx ''ca-key'') of
                           (ev, Inl e) \<Rightarrow> (ev, Failed e)
                         | (ev, Inr (priv, pubPEM)) \<Rightarrow>
                             (let (ev', out) =
                                    writeOutputs w crtFile keyFile usePassword priv pubPEM
                              in (ev @ ev', out))))))"

text \<open>
  The switch as \<open>createAction\<close> calls it: on the type after the \<open>--csr\<close> override,
  the flags \<open>--profile\<close>, \<open>--ca\<close> and \<open>--ca-key\<close> and the first argument.
\<close>

definition created ::
  "('cert, 'key, 'profile) world \<Rightarrow> cli_context
     \<Rightarrow> ('cert, 'key, 'profile) event list \<times> (err + 'key \<times> block)" where
  "created w ctx =
     generate w (typOf ctx) (String_flag ctx ''profile'') (Get (Args ctx) 0)
       (String_flag ctx ''ca'') (String_flag ctx ''ca-key'')"

text \<open>Lines 225 to 228: what the action returns once it has called \<open>WritePrivateKey\<close>.\<close>

definition keyWritten ::
  "('cert, 'key, 'profile) world \<Rightarrow> 'key \<Rightarrow> string \<Rightarrow> string \<Rightarrow> outcome" where
  "keyWritten w priv pass keyFile =
     (case WritePrivateKey w priv pass keyFile of
        Some e \<Rightarrow> Failed (WithStack e)
      | None \<Rightarrow> Ok)"

text \<open>
  The events of the output stage: the write of the certificate file, the prompt for the
  password that encrypts the new key, and the write of the key file.
\<close>

fun isOutputEvent :: "('cert, 'key, 'profile) event \<Rightarrow> bool" where
  "isOutputEvent (EWriteFile name data perm) = True"
| "isOutputEvent (EReadPasswordSubtle prompt label opt) = True"
| "isOutputEvent (EWritePrivateKey priv pass name) = True"
| "isOutputEvent e = False"

section \<open>The root profile\<close>

text \<open>
  What a profile determines, as far as the specification describes it: the subject and
  the issuer name, the basic constraint \<open>isCA\<close>, the key pair of the subject and the
  key that signs.
\<close>

record 'key profile =
  Subject :: string
  Issuer :: string
  IsCA :: bool
  SubjectKey :: 'key
  SignerKey :: 'key

text \<open>
  Modelled from the spec: \<open>stepx509.NewRootProfile\<close> is called by \<open>createAction\<close> but
  its source is not among the files at hand. Section 4.1 of the specification:
  "kind = RootCA: generates a fresh key pair, builds a self-signed CA certificate with
  isCA=true, no issuer required. Fails with ProfileError if subject is empty."
  The fresh key pair is the argument \<open>fresh\<close>; self-signed means that the issuer is the
  subject and that the subject's own key signs.
\<close>

definition NewRootProfile_spec :: "'key \<Rightarrow> string \<Rightarrow> err + 'key profile" where
  "NewRootProfile_spec fresh subject =
     (if subject = [] then Inl ProfileError
      else Inr \<lparr>Subject = subject, Issuer = subject, IsCA = True,
                SubjectKey = fresh, SignerKey = fresh\<rparr>)"

section \<open>The chain loop on the list of blocks\<close>

text \<open>
  The loop of \<open>verifyAction\<close> once more, on the \<open>CERTIFICATE\<close> blocks of the bundle
  instead of its bytes: the first block is parsed and becomes the leaf, each later block
  is encoded again and appended to \<open>ipems\<close>.
\<close>

fun assemble ::
  "('cert, 'key, 'profile) world \<Rightarrow> 'cert option \<Rightarrow> bytes \<Rightarrow> block list
     \<Rightarrow> err + 'cert option \<times> bytes" where
  "assemble w crt ipems [] = Inr (crt, ipems)"
| "assemble w None ipems (blk # blks) =
     (case ParseCertificate w (Bytes blk) of
        Inl e \<Rightarrow> Inl (WithStack e)
      | Inr c \<Rightarrow> assemble w (Some c) ipems blks)"
| "assemble w (Some c) ipems (blk # blks) =
     assemble w (Some c) (ipems @ EncodeToMemory w blk) blks"

section \<open>A concrete world\<close>

text \<open>
  Stand-ins for the collaborators, small enough to run the two actions on concrete
  inputs. A block takes two bytes in a bundle: a tag (1 for \<open>CERTIFICATE\<close>, 2 for
  \<open>RSA PRIVATE KEY\<close>) and one byte of payload; any other tag is data in which
  \<open>pem.Decode\<close> finds no block. A payload below 128 parses as a certificate (its number),
  any other payload is malformed.
\<close>

fun fix_pemDecode :: "bytes \<Rightarrow> block option \<times> bytes" where
  "fix_pemDecode (t # p # rest) =
     (if t = 1 then (Some \<lparr>Type = ''CERTIFICATE'', Headers = [], Bytes = [p]\<rparr>, rest)
      else if t = 2 then (Some \<lparr>Type = ''RSA PRIVATE KEY'', Headers = [], Bytes = [p]\<rparr>, rest)
      else (None, t # p # rest))"
| "fix_pemDecode data = (None, data)"

definition fix_EncodeToMemory :: "block \<Rightarrow> bytes" where
  "fix_EncodeToMemory b = (if Type b = ''CERTIFICATE'' then 1 else 2) # Bytes b"

fun fix_ParseCertificate :: "bytes \<Rightarrow> err + nat" where
  "fix_ParseCertificate [p] =
     (if p < 128 then Inr (unat p) else Inl (Lib ''asn1: structure error''))"
| "fix_ParseCertificate asn1Data = Inl (Lib ''asn1: syntax error'')"

text \<open>
  \<open>(*CertPool).AppendCertsFromPEM\<close> as the Go standard library defines it, over the
  stand-ins above: it decodes block after block, skips a block that is not a
  \<open>CERTIFICATE\<close>, that has headers or that does not parse, adds every other one to the
  pool, and reports whether it has added any.
\<close>

function fix_AppendCertsFromPEM :: "nat list \<Rightarrow> bool \<Rightarrow> bytes \<Rightarrow> nat list \<times> bool" where
  "fix_AppendCertsFromPEM s ok pemCerts =
     (if length pemCerts > 0 then
        (case fix_pemDecode pemCerts of
           (None, rest) \<Rightarrow> (s, ok)
         | (Some blk, rest) \<Rightarrow>
             if Type blk \<noteq> ''CERTIFICATE'' then fix_AppendCertsFromPEM s ok rest
             else if length (Headers blk) \<noteq> 0 then fix_AppendCertsFromPEM s ok rest
             else (case fix_ParseCertificate (Bytes blk) of
                     Inl e \<Rightarrow> fix_AppendCertsFromPEM s ok rest
                   | Inr cert \<Rightarrow> fix_AppendCertsFromPEM (s @ [cert]) True rest))
      else (s, ok))"
  by pat_completeness auto
termination
  by (relation "measure (\<lambda>(s, ok, pemCerts). length pemCerts)")
     (auto elim!: fix_pemDecode.elims [OF sym] split: if_splits)

text \<open>
  The world of the stand-ins: no file exists, no root pool can be read, every other
  collaborator succeeds. The theorems below change single fields of it.
\<close>

definition fix_world :: "(nat, nat, nat profile) world" where
  "fix_world =
     \<lparr>NumberOfArguments =
        (\<lambda>ctx n. if length (Args ctx) < n then Some (Lib ''too few arguments'')
                  else if n < length (Args ctx) then Some (Lib ''too many arguments'')
                  else None),
      ReadFile = (\<lambda>name. Inl (Lib ''no such file or directory'')),
      pemDecode = fix_pemDecode,
      EncodeToMemory = fix_EncodeToMemory,
      ParseCertificate = fix_ParseCertificate,
      AppendCertsFromPEM = (\<lambda>s. fix_AppendCertsFromPEM s False),
      ReadCertPool = (\<lambda>name. (None, Some (Lib ''no such file or directory''))),
      Verify = (\<lambda>c opts. None),
      Title = (\<lambda>s. s),
      GenerateDefaultKey = Inr 7,
      CreateCertificateRequest = (\<lambda>subject priv. Inr [3]),
      LoadIdentityFromDisk = (\<lambda>caPath caKeyPath. Inr (1, 2)),
      NewLeafProfile =
        (\<lambda>subject c k. Inr \<lparr>Subject = subject, Issuer = ''ca'', IsCA = False,
                              SubjectKey = 8, SignerKey = k\<rparr>),
      NewIntermediateProfile =
        (\<lambda>subject c k. Inr \<lparr>Subject = subject, Issuer = ''ca'', IsCA = True,
                              SubjectKey = 8, SignerKey = k\<rparr>),
      NewRootProfile = NewRootProfile_spec 9,
      CreateCertificate = (\<lambda>p. Inr [4]),
      SubjectPrivateKey = SubjectKey,
      WriteFile = (\<lambda>name data perm. None),
      ReadPasswordSubtle = (\<lambda>prompt label opt. Inr ''secret''),
      WritePrivateKey = (\<lambda>priv pass name. None)\<rparr>"

text \<open>A command line: the arguments, the boolean flags that are set, the string flags.\<close>

definition fix_ctx :: "string list \<Rightarrow> string list \<Rightarrow> (string \<times> string) list \<Rightarrow> cli_context" where
  "fix_ctx as bs ss =
     \<lparr>Args = as, Bool_flag = (\<lambda>n. n \<in> set bs),
      String_flag = (\<lambda>n. case map_of ss n of Some v \<Rightarrow> v | None \<Rightarrow> [])\<rparr>"

section \<open>Chain assembly\<close>

lemma chainLoop_assemble:
  "pemBlocks w data blks \<Longrightarrow>
   chainLoop w data crt ipems = Some (assemble w crt ipems (filter isCertificate blks))"
proof (induction arbitrary: crt ipems rule: pemBlocks.induct)
  case (pemBlocks_empty data w)
  then show ?case by (subst chainLoop.simps) simp
next
  case (pemBlocks_none data w rest)
  then show ?case by (subst chainLoop.simps) simp
next
  case (pemBlocks_block data w blk rest blks)
  show ?case
  proof (cases "isCertificate blk")
    case False
    then have t: "Type blk \<noteq> ''CERTIFICATE''" by (simp add: isCertificate_def)
    from pemBlocks_block.hyps show ?thesis
      by (subst chainLoop.simps) (simp add: pemBlocks_block.IH t False)
  next
    case True
    then have t: "Type blk = ''CERTIFICATE''" by (simp add: isCertificate_def)
    from pemBlocks_block.hyps show ?thesis
      by (subst chainLoop.simps)
         (cases crt; simp add: pemBlocks_block.IH t True split: sum.splits)
  qed
qed

lemma assemble_Some:
  "assemble w (Some c) ipems blks = Inr (Some c, ipems @ concat (map (EncodeToMemory w) blks))"
  by (induction blks arbitrary: ipems) simp_all

lemma assemble_start:
  "assemble w None [] certs =
     (case certs of
        [] \<Rightarrow> Inr (None, [])
      | leaf # others \<Rightarrow>
          (case ParseCertificate w (Bytes leaf) of
             Inl e \<Rightarrow> Inl (WithStack e)
           | Inr c \<Rightarrow> Inr (Some c, concat (map (EncodeToMemory w) others))))"
  by (cases certs) (simp_all add: assemble_Some split: sum.splits)

lemma pemBlocks_total:
  "decode_consumes w \<Longrightarrow> \<exists>blks. pemBlocks w data blks"
proof (induction data rule: length_induct)
  case (1 data)
  show ?case
  proof (cases "length data > 0")
    case False
    then show ?thesis by (auto intro: pemBlocks_empty)
  next
    case True
    obtain b rest where d: "pemDecode w data = (b, rest)" by (cases "pemDecode w data")
    show ?thesis
    proof (cases b)
      case None
      with True d show ?thesis by (auto intro: pemBlocks_none)
    next
      case (Some blk)
      with d "1.prems" have "length rest < length data" by (auto simp: decode_consumes_def)
      with "1.IH" "1.prems" obtain blks where "pemBlocks w rest blks" by blast
      with True d Some show ?thesis by (auto intro: pemBlocks_block)
    qed
  qed
qed

lemma fix_decode_consumes: "decode_consumes fix_world"
  unfolding decode_consumes_def fix_world_def
  by (auto elim!: fix_pemDecode.elims split: if_splits)

lemma chainLoop_blocks:
  assumes "pemBlocks w bundle blks"
  shows "chainLoop w bundle None [] =
           Some (case filter isCertificate blks of
                   [] \<Rightarrow> Inr (None, [])
                 | leaf # others \<Rightarrow>
                     (case ParseCertificate w (Bytes leaf) of
                        Inl e \<Rightarrow> Inl (WithStack e)
                      | Inr c \<Rightarrow> Inr (Some c, concat (map (EncodeToMemory w) others))))"
  using chainLoop_assemble [OF assms, of None "[]"] by (simp add: assemble_start)

section \<open>The verify action after the loop\<close>

lemma verifyAction_after:
  assumes "NumberOfArguments w ctx 1 = None"
    and "ReadFile w (Get (Args ctx) 0) = Inr bundle"
    and "chainLoop w bundle None [] = Some r"
  shows "verifyAction w ctx = Some (afterLoop w ctx (Get (Args ctx) 0) r)"
  using assms by (simp add: verifyAction_def)

lemma afterLoop_leaf:
  "afterLoop w ctx crtFile (Inr (Some c, ipems)) =
     (case intermediateList w crtFile ipems of
        Inl e \<Rightarrow> ([EReadFile crtFile], Failed e)
      | Inr pool \<Rightarrow>
          (EReadFile crtFile # fst (loadRoots w (String_flag ctx ''roots''))
             @ [EVerify c \<lparr>DNSName = String_flag ctx ''host'',
                           Roots = snd (loadRoots w (String_flag ctx ''roots'')),
                           Intermediates = pool\<rparr>],
           snd (runVerify w (Some c)
                  \<lparr>DNSName = String_flag ctx ''host'',
                   Roots = snd (loadRoots w (String_flag ctx ''roots'')),
                   Intermediates = pool\<rparr>)))"
  by (simp add: afterLoop_def runVerify_def Let_def split: sum.splits prod.splits)

lemma afterLoop_no_leaf:
  "afterLoop w ctx crtFile (Inr (None, [])) =
     (EReadFile crtFile # fst (loadRoots w (String_flag ctx ''roots'')), NilDereference)"
  by (simp add: afterLoop_def intermediateList_def runVerify_def Let_def split: prod.splits)

lemma verify_without_certificate:
  assumes "NumberOfArguments w ctx 1 = None"
    and "ReadFile w (Get (Args ctx) 0) = Inr bundle"
    and "pemBlocks w bundle blks"
    and "filter isCertificate blks = []"
  shows "verifyAction w ctx =
           Some (EReadFile (Get (Args ctx) 0) # fst (loadRoots w (String_flag ctx ''roots'')),
                 NilDereference)"
proof -
  from chainLoop_assemble [OF assms(3), of None "[]"] assms(4)
  have "chainLoop w bundle None [] = Some (Inr (None, []))" by simp
  from verifyAction_after [OF assms(1) assms(2) this] show ?thesis
    by (simp add: afterLoop_no_leaf)
qed

lemmas verify_eval =
  verifyAction_def fix_world_def fix_ctx_def Get_def chainLoop.simps afterLoop_def
  intermediateList_def loadRoots_def runVerify_def fix_EncodeToMemory_def quoted_def

text \<open>
  C2, as the code has it. Whenever \<open>pem.Decode\<close> consumes what it decodes, every bundle
  has a sequence of blocks and the loop ends on it: with no \<open>CERTIFICATE\<close> block there
  is no leaf; otherwise the first \<open>CERTIFICATE\<close> block is the one that is parsed as the
  leaf, and \<open>ipems\<close> is the concatenation of the encodings of all later \<open>CERTIFICATE\<close>
  blocks in the order of the file, blocks of any other type contributing nothing
  wherever they stand. The intermediate set that \<open>Verify\<close> receives is the pool of
  \<open>intermediateList\<close>: it is empty for a bundle with one \<open>CERTIFICATE\<close> block, and for
  a bundle with more of them it is what \<open>AppendCertsFromPEM\<close> has appended to the empty
  pool from \<open>ipems\<close>, which need not be a certificate for each of the later blocks.
\<close>

theorem chain_assembly:
  assumes "decode_consumes w"
    and "NumberOfArguments w ctx 1 = None"
    and "ReadFile w (Get (Args ctx) 0) = Inr bundle"
  shows "(\<exists>blks. pemBlocks w bundle blks) \<and>
         (\<forall>blks. pemBlocks w bundle blks \<longrightarrow>
            chainLoop w bundle None [] =
              Some (case filter isCertificate blks of
                      [] \<Rightarrow> Inr (None, [])
                    | leaf # others \<Rightarrow>
                        (case ParseCertificate w (Bytes leaf) of
                           Inl e \<Rightarrow> Inl (WithStack e)
                         | Inr c \<Rightarrow> Inr (Some c, concat (map (EncodeToMemory w) others)))) \<and>
            (\<forall>leaf c. filter isCertificate blks = [leaf] \<and>
                 ParseCertificate w (Bytes leaf) = Inr c \<longrightarrow>
               verifyAction w ctx =
                 Some (EReadFile (Get (Args ctx) 0) # fst (loadRoots w (String_flag ctx ''roots''))
                         @ [EVerify c \<lparr>DNSName = String_flag ctx ''host'',
                                       Roots = snd (loadRoots w (String_flag ctx ''roots'')),
                                       Intermediates = []\<rparr>],
                       snd (runVerify w (Some c)
                              \<lparr>DNSName = String_flag ctx ''host'',
                               Roots = snd (loadRoots w (String_flag ctx ''roots'')),
                               Intermediates = []\<rparr>))) \<and>
            (\<forall>leaf others c pool. filter isCertificate blks = leaf # others \<and>
                 ParseCertificate w (Bytes leaf) = Inr c \<and>
                 intermediateList w (Get (Args ctx) 0)
                   (concat (map (EncodeToMemory w) others)) = Inr pool \<longrightarrow>
               pool = (if length (concat (map (EncodeToMemory w) others)) > 0
                       then fst (AppendCertsFromPEM w []
                                   (concat (map (EncodeToMemory w) others)))
                       else []) \<and>
               verifyAction w ctx =
                 Some (EReadFile (Get (Args ctx) 0) # fst (loadRoots w (String_flag ctx ''roots''))
                         @ [EVerify c \<lparr>DNSName = String_flag ctx ''host'',
                                       Roots = snd (loadRoots w (String_flag ctx ''roots'')),
                                       Intermediates = pool\<rparr>],
                       snd (runVerify w (Some c)
                              \<lparr>DNSName = String_flag ctx ''host'',
                               Roots = snd (loadRoots w (String_flag ctx ''roots'')),
                               Intermediates = pool\<rparr>))))"
proof (intro conjI allI impI)
  from assms(1) show "\<exists>blks. pemBlocks w bundle blks" by (rule pemBlocks_total)
next
  fix blks assume b: "pemBlocks w bundle blks"
  then show "chainLoop w bundle None [] =
              Some (case filter isCertificate blks of
                      [] \<Rightarrow> Inr (None, [])
                    | leaf # others \<Rightarrow>
                        (case ParseCertificate w (Bytes leaf) of
                           Inl e \<Rightarrow> Inl (WithStack e)
                         | Inr c \<Rightarrow> Inr (Some c, concat (map (EncodeToMemory w) others))))"
    by (rule chainLoop_blocks)
next
  fix blks leaf c
  assume b: "pemBlocks w bundle blks"
    and h: "filter isCertificate blks = [leaf] \<and> ParseCertificate w (Bytes leaf) = Inr c"
  from chainLoop_blocks [OF b] h
  have "chainLoop w bundle None [] = Some (Inr (Some c, []))" by simp
  from verifyAction_after [OF assms(2) assms(3) this]
  show "verifyAction w ctx =
                 Some (EReadFile (Get (Args ctx) 0) # fst (loadRoots w (String_flag ctx ''roots''))
                         @ [EVerify c \<lparr>DNSName = String_flag ctx ''host'',
                                       Roots = snd (loadRoots w (String_flag ctx ''roots'')),
                                       Intermediates = []\<rparr>],
                       snd (runVerify w (Some c)
                              \<lparr>DNSName = String_flag ctx ''host'',
                               Roots = snd (loadRoots w (String_flag ctx ''roots'')),
                               Intermediates = []\<rparr>))"
    by (simp add: afterLoop_leaf intermediateList_def)
next
  fix blks leaf others c pool
  assume b: "pemBlocks w bundle blks"
    and h: "filter isCertificate blks = leaf # others \<and>
                 ParseCertificate w (Bytes leaf) = Inr c \<and>
                 intermediateList w (Get (Args ctx) 0)
                   (concat (map (EncodeToMemory w) others)) = Inr pool"
  then show "pool = (if length (concat (map (EncodeToMemory w) others)) > 0
                       then fst (AppendCertsFromPEM w []
                                   (concat (map (EncodeToMemory w) others)))
                       else [])"
    by (auto simp add: intermediateList_def split: if_splits)
next
  fix blks leaf others c pool
  assume b: "pemBlocks w bundle blks"
    and h: "filter isCertificate blks = leaf # others \<and>
                 ParseCertificate w (Bytes leaf) = Inr c \<and>
                 intermediateList w (Get (Args ctx) 0)
                   (concat (map (EncodeToMemory w) others)) = Inr pool"
  from chainLoop_blocks [OF b] h
  have "chainLoop w bundle None [] =
          Some (Inr (Some c, concat (map (EncodeToMemory w) others)))" by simp
  from verifyAction_after [OF assms(2) assms(3) this] h
  show "verifyAction w ctx =
                 Some (EReadFile (Get (Args ctx) 0) # fst (loadRoots w (String_flag ctx ''roots''))
                         @ [EVerify c \<lparr>DNSName = String_flag ctx ''host'',
                                       Roots = snd (loadRoots w (String_flag ctx ''roots'')),
                                       Intermediates = pool\<rparr>],
                       snd (runVerify w (Some c)
                              \<lparr>DNSName = String_flag ctx ''host'',
                               Roots = snd (loadRoots w (String_flag ctx ''roots'')),
                               Intermediates = pool\<rparr>))"
    by (simp add: afterLoop_leaf)
qed

text \<open>
  A leaf, a key and two further certificates: \<open>Verify\<close> receives the leaf 5 and the
  intermediates 6 and 7, and nothing for the key.
\<close>

theorem chain_assembly_witness:
  "verifyAction (fix_world\<lparr>ReadFile := \<lambda>name. Inr [1, 5, 2, 9, 1, 6, 1, 7]\<rparr>)
       (fix_ctx [''chain.pem''] [] []) =
     Some ([EReadFile ''chain.pem'',
            EVerify 5 \<lparr>DNSName = [], Roots = None, Intermediates = [6, 7]\<rparr>], Ok)"
proof -
  let ?w = "fix_world\<lparr>ReadFile := \<lambda>name. Inr [1, 5, 2, 9, 1, 6, 1, 7]\<rparr>"
  let ?ctx = "fix_ctx [''chain.pem''] [] []"
  let ?leaf = "\<lparr>Type = ''CERTIFICATE'', Headers = [], Bytes = [5]\<rparr>"
  let ?key = "\<lparr>Type = ''RSA PRIVATE KEY'', Headers = [], Bytes = [9]\<rparr>"
  let ?i1 = "\<lparr>Type = ''CERTIFICATE'', Headers = [], Bytes = [6]\<rparr>"
  let ?i2 = "\<lparr>Type = ''CERTIFICATE'', Headers = [], Bytes = [7]\<rparr>"
  have dc: "decode_consumes ?w"
    using fix_decode_consumes by (simp add: decode_consumes_def fix_world_def)
  have a: "NumberOfArguments ?w ?ctx 1 = None"
    by (simp add: fix_world_def fix_ctx_def)
  have r: "ReadFile ?w (Get (Args ?ctx) 0) = Inr [1, 5, 2, 9, 1, 6, 1, 7]"
    by simp
  have b: "pemBlocks ?w [1, 5, 2, 9, 1, 6, 1, 7] [?leaf, ?key, ?i1, ?i2]"
    by (rule pemBlocks_block, simp, simp add: fix_world_def)+ (rule pemBlocks_empty, simp)
  have h: "filter isCertificate [?leaf, ?key, ?i1, ?i2] = ?leaf # [?i1, ?i2] \<and>
           ParseCertificate ?w (Bytes ?leaf) = Inr 5 \<and>
           intermediateList ?w (Get (Args ?ctx) 0)
             (concat (map (EncodeToMemory ?w) [?i1, ?i2])) = Inr [6, 7]"
    by (simp add: isCertificate_def fix_world_def intermediateList_def fix_EncodeToMemory_def)
  from chain_assembly [OF dc a r, THEN conjunct2, rule_format, OF b,
      THEN conjunct2, THEN conjunct2, rule_format, OF h]
  show ?thesis
    by (simp add: fix_world_def fix_ctx_def Get_def loadRoots_def runVerify_def)
qed

text \<open>
  C2 as the specification states it fails. The bundle holds three \<open>CERTIFICATE\<close>
  blocks, a key after the first and a second certificate that does not parse.
  \<open>AppendCertsFromPEM\<close> of the Go standard library leaves the block that does not
  parse out of the pool, so \<open>Verify\<close> receives one intermediate and not two.
\<close>

theorem dropped_intermediate_counterexample:
  "pemBlocks (fix_world\<lparr>ReadFile := \<lambda>name. Inr [1, 5, 2, 9, 1, 200, 1, 6]\<rparr>)
     [1, 5, 2, 9, 1, 200, 1, 6]
     [\<lparr>Type = ''CERTIFICATE'', Headers = [], Bytes = [5]\<rparr>,
      \<lparr>Type = ''RSA PRIVATE KEY'', Headers = [], Bytes = [9]\<rparr>,
      \<lparr>Type = ''CERTIFICATE'', Headers = [], Bytes = [200]\<rparr>,
      \<lparr>Type = ''CERTIFICATE'', Headers = [], Bytes = [6]\<rparr>] \<and>
   length (filter isCertificate
     [\<lparr>Type = ''CERTIFICATE'', Headers = [], Bytes = [5]\<rparr>,
      \<lparr>Type = ''RSA PRIVATE KEY'', Headers = [], Bytes = [9]\<rparr>,
      \<lparr>Type = ''CERTIFICATE'', Headers = [], Bytes = [200]\<rparr>,
      \<lparr>Type = ''CERTIFICATE'', Headers = [], Bytes = [6]\<rparr>]) = 3 \<and>
   verifyAction (fix_world\<lparr>ReadFile := \<lambda>name. Inr [1, 5, 2, 9, 1, 200, 1, 6]\<rparr>)
       (fix_ctx [''chain.pem''] [] []) =
     Some ([EReadFile ''chain.pem'',
            EVerify 5 \<lparr>DNSName = [], Roots = None, Intermediates = [6]\<rparr>], Ok)"
proof (intro conjI)
  show "pemBlocks (fix_world\<lparr>ReadFile := \<lambda>name. Inr [1, 5, 2, 9, 1, 200, 1, 6]\<rparr>)
     [1, 5, 2, 9, 1, 200, 1, 6]
     [\<lparr>Type = ''CERTIFICATE'', Headers = [], Bytes = [5]\<rparr>,
      \<lparr>Type = ''RSA PRIVATE KEY'', Headers = [], Bytes = [9]\<rparr>,
      \<lparr>Type = ''CERTIFICATE'', Headers = [], Bytes = [200]\<rparr>,
      \<lparr>Type = ''CERTIFICATE'', Headers = [], Bytes = [6]\<rparr>]"
    by (rule pemBlocks_block, simp, simp add: fix_world_def)+ (rule pemBlocks_empty, simp)
qed (simp_all add: verify_eval isCertificate_def)

text \<open>
  C3, as the code has it. A first \<open>CERTIFICATE\<close> block that does not parse ends the
  action with the parser's error under \<open>errors.WithStack\<close>. When it parses, the action
  ends with the error "failure creating intermediate list" exactly when later
  \<open>CERTIFICATE\<close> blocks have left a non-empty \<open>ipems\<close> on which \<open>AppendCertsFromPEM\<close>
  returns false; in every other case the action goes on to \<open>Verify\<close> with the leaf. The
  two errors are different values. Whether a malformed later block makes the action
  fail is therefore the decision of \<open>AppendCertsFromPEM\<close>, not of the loop.
\<close>

theorem leaf_and_intermediate_errors:
  assumes "NumberOfArguments w ctx 1 = None"
    and "ReadFile w (Get (Args ctx) 0) = Inr bundle"
    and "pemBlocks w bundle blks"
    and "filter isCertificate blks = leaf # others"
  shows "(\<forall>e. ParseCertificate w (Bytes leaf) = Inl e \<longrightarrow>
            verifyAction w ctx = Some ([EReadFile (Get (Args ctx) 0)], Failed (WithStack e))) \<and>
         (\<forall>c. ParseCertificate w (Bytes leaf) = Inr c \<longrightarrow>
            (if length (concat (map (EncodeToMemory w) others)) > 0 \<and>
                \<not> snd (AppendCertsFromPEM w [] (concat (map (EncodeToMemory w) others)))
             then verifyAction w ctx =
                    Some ([EReadFile (Get (Args ctx) 0)],
                          Failed (Errorf (''failure creating intermediate list from certificate ''
                                            @ quoted (Get (Args ctx) 0))))
             else (\<exists>tr opts. verifyAction w ctx =
                     Some (tr @ [EVerify c opts], snd (runVerify w (Some c) opts))))) \<and>
         (\<forall>e m. WithStack e \<noteq> Errorf m)"
proof (intro conjI allI impI)
  fix e assume p: "ParseCertificate w (Bytes leaf) = Inl e"
  from chainLoop_assemble [OF assms(3), of None "[]"] assms(4) p
  have "chainLoop w bundle None [] = Some (Inl (WithStack e))" by simp
  from verifyAction_after [OF assms(1) assms(2) this]
  show "verifyAction w ctx = Some ([EReadFile (Get (Args ctx) 0)], Failed (WithStack e))"
    by (simp add: afterLoop_def)
next
  fix c assume p: "ParseCertificate w (Bytes leaf) = Inr c"
  let ?ipems = "concat (map (EncodeToMemory w) others)"
  from chainLoop_assemble [OF assms(3), of None "[]"] assms(4) p
  have "chainLoop w bundle None [] = Some (Inr (Some c, ?ipems))"
    by (simp add: assemble_Some)
  from verifyAction_after [OF assms(1) assms(2) this]
  have v: "verifyAction w ctx = Some (afterLoop w ctx (Get (Args ctx) 0) (Inr (Some c, ?ipems)))" .
  show "if length ?ipems > 0 \<and> \<not> snd (AppendCertsFromPEM w [] ?ipems)
        then verifyAction w ctx =
               Some ([EReadFile (Get (Args ctx) 0)],
                     Failed (Errorf (''failure creating intermediate list from certificate ''
                                       @ quoted (Get (Args ctx) 0))))
        else (\<exists>tr opts. verifyAction w ctx =
                Some (tr @ [EVerify c opts], snd (runVerify w (Some c) opts)))"
  proof (cases "length ?ipems > 0 \<and> \<not> snd (AppendCertsFromPEM w [] ?ipems)")
    case True
    then have "intermediateList w (Get (Args ctx) 0) ?ipems =
                 Inl (Errorf (''failure creating intermediate list from certificate ''
                                @ quoted (Get (Args ctx) 0)))"
      by (simp add: intermediateList_def)
    then have "verifyAction w ctx =
               Some ([EReadFile (Get (Args ctx) 0)],
                     Failed (Errorf (''failure creating intermediate list from certificate ''
                                       @ quoted (Get (Args ctx) 0))))"
      unfolding v afterLoop_leaf by simp
    then show ?thesis unfolding if_P [OF True] .
  next
    case False
    then obtain pool where i: "intermediateList w (Get (Args ctx) 0) ?ipems = Inr pool"
      by (auto simp add: intermediateList_def)
    have "\<exists>tr opts. verifyAction w ctx =
                Some (tr @ [EVerify c opts], snd (runVerify w (Some c) opts))"
      unfolding v afterLoop_leaf i
      by (simp del: append_Cons add: append_Cons [symmetric])
    then show ?thesis unfolding if_not_P [OF False] .
  qed
next
  fix e m show "WithStack e \<noteq> Errorf m" by simp
qed

text \<open>
  A leaf followed by one malformed certificate: nothing can be appended, and the action
  ends with the error of the intermediate list.
\<close>

theorem leaf_and_intermediate_errors_witness:
  "verifyAction (fix_world\<lparr>ReadFile := \<lambda>name. Inr [1, 5, 1, 200]\<rparr>)
       (fix_ctx [''chain.pem''] [] []) =
     Some ([EReadFile ''chain.pem''],
           Failed (Errorf (''failure creating intermediate list from certificate ''
                             @ quoted ''chain.pem'')))"
proof -
  let ?w = "fix_world\<lparr>ReadFile := \<lambda>name. Inr [1, 5, 1, 200]\<rparr>"
  let ?ctx = "fix_ctx [''chain.pem''] [] []"
  let ?leaf = "\<lparr>Type = ''CERTIFICATE'', Headers = [], Bytes = [5]\<rparr>"
  let ?bad = "\<lparr>Type = ''CERTIFICATE'', Headers = [], Bytes = [200]\<rparr>"
  have a: "NumberOfArguments ?w ?ctx 1 = None"
    by (simp add: fix_world_def fix_ctx_def)
  have r: "ReadFile ?w (Get (Args ?ctx) 0) = Inr [1, 5, 1, 200]"
    by simp
  have b: "pemBlocks ?w [1, 5, 1, 200] [?leaf, ?bad]"
    by (rule pemBlocks_block, simp, simp add: fix_world_def)+ (rule pemBlocks_empty, simp)
  have f: "filter isCertificate [?leaf, ?bad] = ?leaf # [?bad]"
    by (simp add: isCertificate_def)
  from leaf_and_intermediate_errors [OF a r b f] show ?thesis
    by (simp add: fix_world_def fix_ctx_def Get_def fix_EncodeToMemory_def)
qed

text \<open>
  C3 as the specification states it fails. The bundle holds three \<open>CERTIFICATE\<close>
  blocks: the leaf 5, the well-formed certificate 6 and a block that does not parse.
  \<open>AppendCertsFromPEM\<close> of the Go standard library skips the block that does not
  parse and returns true because it has added certificate 6, so the action reports no
  error for the intermediate bundle and verifies the leaf.
\<close>

theorem malformed_intermediate_counterexample:
  "pemDecode fix_world [1, 5, 1, 6, 1, 200] =
     (Some \<lparr>Type = ''CERTIFICATE'', Headers = [], Bytes = [5]\<rparr>, [1, 6, 1, 200]) \<and>
   pemDecode fix_world [1, 6, 1, 200] =
     (Some \<lparr>Type = ''CERTIFICATE'', Headers = [], Bytes = [6]\<rparr>, [1, 200]) \<and>
   pemDecode fix_world [1, 200] =
     (Some \<lparr>Type = ''CERTIFICATE'', Headers = [], Bytes = [200]\<rparr>, []) \<and>
   ParseCertificate fix_world [5] = Inr 5 \<and>
   ParseCertificate fix_world [200] = Inl (Lib ''asn1: structure error'') \<and>
   verifyAction (fix_world\<lparr>ReadFile := \<lambda>name. Inr [1, 5, 1, 6, 1, 200]\<rparr>)
       (fix_ctx [''chain.pem''] [] []) =
     Some ([EReadFile ''chain.pem'',
            EVerify 5 \<lparr>DNSName = [], Roots = None, Intermediates = [6]\<rparr>], Ok)"
  by (simp add: verify_eval)

text \<open>
  The root pool, for every world. In every run in which the loop has delivered a leaf and
  the intermediate pool has been filled, an empty \<open>--roots\<close> leads straight from reading the certificate file to
  \<open>Verify\<close> with a nil root pool, for which \<open>Verify\<close> takes the roots of the platform:
  \<open>ReadCertPool\<close> is not called. With a non-empty \<open>--roots\<close>, \<open>ReadCertPool\<close> is called
  on it and the pool it returns is the root pool handed to \<open>Verify\<close>, whatever error
  it returns with it: a nil pool when the load has failed.
\<close>

lemma roots_selection:
  assumes "NumberOfArguments w ctx 1 = None"
    and "ReadFile w (Get (Args ctx) 0) = Inr bundle"
    and "chainLoop w bundle None [] = Some (Inr (Some c, ipems))"
    and "intermediateList w (Get (Args ctx) 0) ipems = Inr pool"
  shows "verifyAction w ctx =
           Some (if String_flag ctx ''roots'' = []
                 then ([EReadFile (Get (Args ctx) 0),
                        EVerify c \<lparr>DNSName = String_flag ctx ''host'', Roots = None,
                                   Intermediates = pool\<rparr>],
                       snd (runVerify w (Some c)
                              \<lparr>DNSName = String_flag ctx ''host'', Roots = None,
                               Intermediates = pool\<rparr>))
                 else ([EReadFile (Get (Args ctx) 0),
                        EReadCertPool (String_flag ctx ''roots''),
                        EVerify c \<lparr>DNSName = String_flag ctx ''host'',
                                   Roots = fst (ReadCertPool w (String_flag ctx ''roots'')),
                                   Intermediates = pool\<rparr>],
                       snd (runVerify w (Some c)
                              \<lparr>DNSName = String_flag ctx ''host'',
                               Roots = fst (ReadCertPool w (String_flag ctx ''roots'')),
                               Intermediates = pool\<rparr>)))"
  using verifyAction_after [OF assms(1) assms(2) assms(3)] assms(4)
  by (simp add: afterLoop_leaf loadRoots_def)

text \<open>A leaf verified against the pool read from \<open>root.pem\<close>.\<close>

lemma roots_selection_example:
  "verifyAction (fix_world\<lparr>ReadFile := \<lambda>name. Inr [1, 5], ReadCertPool := \<lambda>name. (Some [4], None)\<rparr>)
       (fix_ctx [''leaf.pem''] [] [(''roots'', ''root.pem'')]) =
     Some ([EReadFile ''leaf.pem'', EReadCertPool ''root.pem'',
            EVerify 5 \<lparr>DNSName = [], Roots = Some [4], Intermediates = []\<rparr>], Ok)"
proof -
  let ?w = "fix_world\<lparr>ReadFile := \<lambda>name. Inr [1, 5], ReadCertPool := \<lambda>name. (Some [4], None)\<rparr>"
  let ?ctx = "fix_ctx [''leaf.pem''] [] [(''roots'', ''root.pem'')]"
  have a: "NumberOfArguments ?w ?ctx 1 = None"
    by (simp add: fix_world_def fix_ctx_def)
  have r: "ReadFile ?w (Get (Args ?ctx) 0) = Inr [1, 5]"
    by simp
  have l: "chainLoop ?w [1, 5] None [] = Some (Inr (Some 5, []))"
    by (simp add: chainLoop.simps fix_world_def)
  have i: "intermediateList ?w (Get (Args ?ctx) 0) [] = Inr []"
    by (simp add: intermediateList_def)
  from roots_selection [OF a r l i] show ?thesis
    by (simp add: fix_world_def fix_ctx_def Get_def runVerify_def)
qed

text \<open>
  C1 fails on the code. \<open>ReadCertPool\<close> reports an error for \<open>missing.pem\<close>; the action
  calls \<open>Verify\<close> all the same, with a nil root pool, and returns its verdict, here
  success. The error of \<open>ReadCertPool\<close> appears nowhere in the result.
\<close>

theorem load_error_dropped:
  "ReadCertPool fix_world ''missing.pem'' = (None, Some (Lib ''no such file or directory'')) \<and>
   verifyAction (fix_world\<lparr>ReadFile := \<lambda>name. Inr [1, 5]\<rparr>)
       (fix_ctx [''leaf.pem''] [] [(''roots'', ''missing.pem'')]) =
     Some ([EReadFile ''leaf.pem'', EReadCertPool ''missing.pem'',
            EVerify 5 \<lparr>DNSName = [], Roots = None, Intermediates = []\<rparr>], Ok)"
  by (simp add: verify_eval)

text \<open>
  C8 fails on the code. \<open>--roots\<close> is \<open>roots.d\<close>, which cannot be read. The root pool
  handed to \<open>Verify\<close> is nil, so \<open>Verify\<close> takes the roots of the platform: the
  non-empty \<open>--roots\<close> has not replaced them. The cause is the one of C1, the error of
  \<open>ReadCertPool\<close> that line 101 wraps and drops. The lemma \<open>roots_selection\<close> above
  shows for every world that an empty \<open>--roots\<close> gives the nil pool without a call of
  \<open>ReadCertPool\<close> and that a non-empty one gives the pool that \<open>ReadCertPool\<close> returned.
\<close>

theorem roots_not_replaced:
  "String_flag (fix_ctx [''chain.pem''] []
                  [(''roots'', ''roots.d''), (''host'', ''example.com'')]) ''roots'' = ''roots.d'' \<and>
   ReadCertPool fix_world ''roots.d'' = (None, Some (Lib ''no such file or directory'')) \<and>
   verifyAction (fix_world\<lparr>ReadFile := \<lambda>name. Inr [1, 5, 1, 6]\<rparr>)
       (fix_ctx [''chain.pem''] [] [(''roots'', ''roots.d''), (''host'', ''example.com'')]) =
     Some ([EReadFile ''chain.pem'', EReadCertPool ''roots.d'',
            EVerify 5 \<lparr>DNSName = ''example.com'', Roots = None, Intermediates = [6]\<rparr>], Ok)"
  by (simp add: verify_eval)

text \<open>
  C9 fails on the code. The file \<open>empty.pem\<close> is readable and holds no PEM block at
  all: the loop leaves \<open>crt\<close> nil, no check follows it, and \<open>Verify\<close> is called through
  the nil pointer. The lemma \<open>verify_without_certificate\<close> above shows the same for every
  readable file without a \<open>CERTIFICATE\<close> block.
\<close>

theorem nil_leaf_verified:
  "verifyAction (fix_world\<lparr>ReadFile := \<lambda>name. Inr []\<rparr>) (fix_ctx [''empty.pem''] [] []) =
     Some ([EReadFile ''empty.pem''], NilDereference)"
  by (simp add: verify_eval)

section \<open>The create action: checks and stages\<close>

lemma createAction_checked:
  assumes "NumberOfArguments w ctx 3 = None"
    and "usePasswordOf ctx = Inr usePassword"
    and "Get (Args ctx) 1 \<noteq> Get (Args ctx) 2"
  shows "createAction w ctx =
           (case created w ctx of
              (ev, Inl e) \<Rightarrow> (ev, Failed e)
            | (ev, Inr (priv, pubPEM)) \<Rightarrow>
                (ev @ fst (writeOutputs w (Get (Args ctx) 1) (Get (Args ctx) 2)
                             usePassword priv pubPEM),
                 snd (writeOutputs w (Get (Args ctx) 1) (Get (Args ctx) 2)
                        usePassword priv pubPEM)))"
  using assms
  by (simp add: createAction_def created_def Let_def split: prod.splits sum.splits)

lemma selectProfile_events:
  "filter isOutputEvent (fst (selectProfile w prof subject caPath caKeyPath)) = []"
  by (simp add: selectProfile_def loadIssuerIdentity_def split: sum.splits prod.splits)

lemma generate_events:
  "filter isOutputEvent (fst (generate w typ prof subject caPath caKeyPath)) = []"
  using selectProfile_events [of w prof subject caPath caKeyPath]
  by (auto simp add: generate_def split: sum.splits prod.splits)

lemma writeOutputs_events:
  "filter isOutputEvent (fst (writeOutputs w crtFile keyFile usePassword priv pubPEM)) =
     fst (writeOutputs w crtFile keyFile usePassword priv pubPEM)"
  by (simp add: writeOutputs_def askPassword_def split: option.splits sum.splits prod.splits)

lemma createAction_events:
  assumes "NumberOfArguments w ctx 3 = None"
    and "usePasswordOf ctx = Inr usePassword"
    and "Get (Args ctx) 1 \<noteq> Get (Args ctx) 2"
  shows "\<exists>later. fst (createAction w ctx) = fst (created w ctx) @ later \<and>
           filter isOutputEvent later = later"
  unfolding createAction_checked [OF assms]
  by (auto simp add: writeOutputs_events split: prod.splits sum.splits)

lemma generate_without_issuer:
  "typ = ''x509-csr'' \<or> typ = ''x509'' \<and> prof = ''root-ca'' \<Longrightarrow>
   generate w typ prof subject caPath caKeyPath = generate w typ prof subject [] []"
  by (auto simp add: generate_def selectProfile_def split: sum.splits)

lemma generate_never_loads:
  "typ = ''x509-csr'' \<or> typ = ''x509'' \<and> prof = ''root-ca'' \<Longrightarrow>
   ELoadIdentityFromDisk a b \<notin> set (fst (generate w typ prof subject caPath caKeyPath))"
  by (auto simp add: generate_def selectProfile_def split: sum.splits)

lemma createAction_never_loads:
  assumes "NumberOfArguments w ctx 3 = None"
    and "usePasswordOf ctx = Inr usePassword"
    and "Get (Args ctx) 1 \<noteq> Get (Args ctx) 2"
    and "typOf ctx = ''x509-csr'' \<or>
         typOf ctx = ''x509'' \<and> String_flag ctx ''profile'' = ''root-ca''"
  shows "ELoadIdentityFromDisk a b \<notin> set (fst (createAction w ctx))"
proof
  assume i: "ELoadIdentityFromDisk a b \<in> set (fst (createAction w ctx))"
  from createAction_events [OF assms(1-3)] obtain later where
    l: "fst (createAction w ctx) = fst (created w ctx) @ later"
       "filter isOutputEvent later = later" by blast
  from generate_never_loads [OF assms(4)]
  have "ELoadIdentityFromDisk a b \<notin> set (fst (created w ctx))"
    by (simp add: created_def)
  with i l(1) have "ELoadIdentityFromDisk a b \<in> set later" by simp
  then have "ELoadIdentityFromDisk a b \<in> set (filter isOutputEvent later)"
    by (simp only: l(2))
  then show False by simp
qed

lemmas create_eval =
  created_def generate_def selectProfile_def loadIssuerIdentity_def usePasswordOf_def typOf_def
  fix_world_def fix_ctx_def Get_def fix_EncodeToMemory_def NewRootProfile_spec_def keyWritten_def

text \<open>
  C5. When the second and the third argument are equal, \<open>createAction\<close> returns an error
  and has called no collaborator: no key is generated, no file is read or written. The
  error is that of the first check that fails, which for three arguments and consistent
  password flags is \<open>errs.EqualArguments\<close> for \<open>CRT_FILE\<close> and \<open>KEY_FILE\<close>.
\<close>

theorem equal_output_paths:
  assumes "Get (Args ctx) 1 = Get (Args ctx) 2"
  shows "createAction w ctx =
           ([], Failed (case NumberOfArguments w ctx 3 of
                          Some e \<Rightarrow> e
                        | None \<Rightarrow>
                            (case usePasswordOf ctx of
                               Inl e \<Rightarrow> e
                             | Inr usePassword \<Rightarrow> EqualArguments ''CRT_FILE'' ''KEY_FILE'')))"
  using assms by (simp add: createAction_def split: option.splits sum.splits)

text \<open>The same output path twice, everything else in order.\<close>

theorem equal_output_paths_witness:
  "createAction fix_world
       (fix_ctx [''example.com'', ''out.pem'', ''out.pem''] []
          [(''type'', ''x509''), (''profile'', ''leaf'')]) =
     ([], Failed (EqualArguments ''CRT_FILE'' ''KEY_FILE''))"
  using equal_output_paths [of "fix_ctx [''example.com'', ''out.pem'', ''out.pem''] []
          [(''type'', ''x509''), (''profile'', ''leaf'')]" fix_world]
  by (simp add: create_eval)

text \<open>
  C6. With \<open>--no-password\<close> and without \<open>--insecure\<close> the action fails before it calls
  any collaborator, with \<open>errs.RequiredWithFlag\<close> once the number of arguments is right.
  In a run that has produced the key and the PEM block and has written the certificate
  file: with both flags the key is written next, under the empty password and without
  any prompt; without \<open>--no-password\<close> the prompt for the encryption password, called
  with \<open>reader.RetryOnEmpty\<close>, comes next, and the key is written only after it and
  under the password it returned, or not at all when the prompt fails.
\<close>

theorem password_policy:
  "(Bool_flag ctx ''no-password'' \<and> \<not> Bool_flag ctx ''insecure'' \<longrightarrow>
      createAction w ctx =
        ([], Failed (case NumberOfArguments w ctx 3 of
                       Some e \<Rightarrow> e
                     | None \<Rightarrow> RequiredWithFlag ''insecure'' ''no-password''))) \<and>
   (NumberOfArguments w ctx 3 = None \<and> Get (Args ctx) 1 \<noteq> Get (Args ctx) 2 \<and>
    created w ctx = (ev, Inr (priv, pubPEM)) \<and>
    WriteFile w (Get (Args ctx) 1) (EncodeToMemory w pubPEM) 384 = None \<longrightarrow>
      (Bool_flag ctx ''no-password'' \<and> Bool_flag ctx ''insecure'' \<longrightarrow>
         createAction w ctx =
           (ev @ [EWriteFile (Get (Args ctx) 1) (EncodeToMemory w pubPEM) 384,
                  EWritePrivateKey priv [] (Get (Args ctx) 2)],
            keyWritten w priv [] (Get (Args ctx) 2))) \<and>
      (\<not> Bool_flag ctx ''no-password'' \<longrightarrow>
         (case ReadPasswordSubtle w (encryptPrompt (Get (Args ctx) 2)) ''Password'' RetryOnEmpty of
            Inl e \<Rightarrow>
              createAction w ctx =
                (ev @ [EWriteFile (Get (Args ctx) 1) (EncodeToMemory w pubPEM) 384,
                       EReadPasswordSubtle (encryptPrompt (Get (Args ctx) 2)) ''Password''
                         RetryOnEmpty],
                 Failed (WithStack e))
          | Inr pass \<Rightarrow>
              createAction w ctx =
                (ev @ [EWriteFile (Get (Args ctx) 1) (EncodeToMemory w pubPEM) 384,
                       EReadPasswordSubtle (encryptPrompt (Get (Args ctx) 2)) ''Password''
                         RetryOnEmpty,
                       EWritePrivateKey priv pass (Get (Args ctx) 2)],
                 keyWritten w priv pass (Get (Args ctx) 2)))))"
proof (intro conjI impI)
  assume "Bool_flag ctx ''no-password'' \<and> \<not> Bool_flag ctx ''insecure''"
  then show "createAction w ctx =
        ([], Failed (case NumberOfArguments w ctx 3 of
                       Some e \<Rightarrow> e
                     | None \<Rightarrow> RequiredWithFlag ''insecure'' ''no-password''))"
    by (simp add: createAction_def usePasswordOf_def split: option.splits)
next
  assume r: "NumberOfArguments w ctx 3 = None \<and> Get (Args ctx) 1 \<noteq> Get (Args ctx) 2 \<and>
    created w ctx = (ev, Inr (priv, pubPEM)) \<and>
    WriteFile w (Get (Args ctx) 1) (EncodeToMemory w pubPEM) 384 = None"
    and f: "Bool_flag ctx ''no-password'' \<and> Bool_flag ctx ''insecure''"
  from f have u: "usePasswordOf ctx = Inr False" by (simp add: usePasswordOf_def)
  from r createAction_checked [OF _ u, of w]
  show "createAction w ctx =
           (ev @ [EWriteFile (Get (Args ctx) 1) (EncodeToMemory w pubPEM) 384,
                  EWritePrivateKey priv [] (Get (Args ctx) 2)],
            keyWritten w priv [] (Get (Args ctx) 2))"
    by (simp add: writeOutputs_def askPassword_def keyWritten_def)
next
  assume r: "NumberOfArguments w ctx 3 = None \<and> Get (Args ctx) 1 \<noteq> Get (Args ctx) 2 \<and>
    created w ctx = (ev, Inr (priv, pubPEM)) \<and>
    WriteFile w (Get (Args ctx) 1) (EncodeToMemory w pubPEM) 384 = None"
    and f: "\<not> Bool_flag ctx ''no-password''"
  from f have u: "usePasswordOf ctx = Inr True" by (simp add: usePasswordOf_def)
  from r createAction_checked [OF _ u, of w]
  show "case ReadPasswordSubtle w (encryptPrompt (Get (Args ctx) 2)) ''Password'' RetryOnEmpty of
            Inl e \<Rightarrow>
              createAction w ctx =
                (ev @ [EWriteFile (Get (Args ctx) 1) (EncodeToMemory w pubPEM) 384,
                       EReadPasswordSubtle (encryptPrompt (Get (Args ctx) 2)) ''Password''
                         RetryOnEmpty],
                 Failed (WithStack e))
          | Inr pass \<Rightarrow>
              createAction w ctx =
                (ev @ [EWriteFile (Get (Args ctx) 1) (EncodeToMemory w pubPEM) 384,
                       EReadPasswordSubtle (encryptPrompt (Get (Args ctx) 2)) ''Password''
                         RetryOnEmpty,
                       EWritePrivateKey priv pass (Get (Args ctx) 2)],
                 keyWritten w priv pass (Get (Args ctx) 2))"
    by (simp add: writeOutputs_def askPassword_def keyWritten_def split: sum.splits)
qed

text \<open>The three combinations of the two flags for a root certificate.\<close>

theorem password_policy_witness:
  "createAction fix_world
       (fix_ctx [''Root CA'', ''root.crt'', ''root.key''] [''no-password'']
          [(''type'', ''x509''), (''profile'', ''root-ca'')]) =
     ([], Failed (RequiredWithFlag ''insecure'' ''no-password'')) \<and>
   createAction fix_world
       (fix_ctx [''Root CA'', ''root.crt'', ''root.key''] [''no-password'', ''insecure'']
          [(''type'', ''x509''), (''profile'', ''root-ca'')]) =
     ([ENewRootProfile ''Root CA'',
       ECreateCertificate \<lparr>Subject = ''Root CA'', Issuer = ''Root CA'', IsCA = True,
                            SubjectKey = 9, SignerKey = 9\<rparr>,
       EWriteFile ''root.crt'' [1, 4] 384,
       EWritePrivateKey 9 [] ''root.key''], Ok) \<and>
   createAction fix_world
       (fix_ctx [''Root CA'', ''root.crt'', ''root.key''] []
          [(''type'', ''x509''), (''profile'', ''root-ca'')]) =
     ([ENewRootProfile ''Root CA'',
       ECreateCertificate \<lparr>Subject = ''Root CA'', Issuer = ''Root CA'', IsCA = True,
                            SubjectKey = 9, SignerKey = 9\<rparr>,
       EWriteFile ''root.crt'' [1, 4] 384,
       EReadPasswordSubtle (encryptPrompt ''root.key'') ''Password'' RetryOnEmpty,
       EWritePrivateKey 9 ''secret'' ''root.key''], Ok)"
proof -
  let ?args = "[''Root CA'', ''root.crt'', ''root.key'']"
  let ?flags = "[(''type'', ''x509''), (''profile'', ''root-ca'')]"
  let ?p = "\<lparr>Subject = ''Root CA'', Issuer = ''Root CA'', IsCA = True,
              SubjectKey = 9::nat, SignerKey = 9\<rparr>"
  let ?ev = "[ENewRootProfile ''Root CA'', ECreateCertificate ?p]
               :: (nat, nat, nat profile) event list"
  let ?pem = "\<lparr>Type = ''CERTIFICATE'', Headers = [], Bytes = [4]\<rparr>"
  note p = password_policy [where w = fix_world and ev = ?ev and priv = 9 and pubPEM = ?pem]
  from p [of "fix_ctx ?args [''no-password''] ?flags"]
  have a: "createAction fix_world (fix_ctx ?args [''no-password''] ?flags) =
             ([], Failed (RequiredWithFlag ''insecure'' ''no-password''))"
    by (simp add: create_eval)
  from p [of "fix_ctx ?args [''no-password'', ''insecure''] ?flags"]
  have b: "createAction fix_world (fix_ctx ?args [''no-password'', ''insecure''] ?flags) =
             (?ev @ [EWriteFile ''root.crt'' [1, 4] 384, EWritePrivateKey 9 [] ''root.key''], Ok)"
    by (simp add: create_eval)
  from p [of "fix_ctx ?args [] ?flags"]
  have c: "createAction fix_world (fix_ctx ?args [] ?flags) =
             (?ev @ [EWriteFile ''root.crt'' [1, 4] 384,
                     EReadPasswordSubtle (encryptPrompt ''root.key'') ''Password'' RetryOnEmpty,
                     EWritePrivateKey 9 ''secret'' ''root.key''], Ok)"
    by (simp add: create_eval)
  from a b c show ?thesis by simp
qed

text \<open>
  C4. In a run that has passed the checks on the arguments, with type \<open>x509\<close> and the
  profile \<open>leaf\<close> or \<open>intermediate-ca\<close>: an empty \<open>--ca\<close> ends the action with the
  message that names \<open>--ca\<close>, a non-empty \<open>--ca\<close> with an empty \<open>--ca-key\<close> with the
  message that names \<open>--ca-key\<close>, in both cases before any collaborator is called, while
  with both paths the first call is \<open>LoadIdentityFromDisk\<close> on them. For a request
  (\<open>x509-csr\<close>) and for the profile \<open>root-ca\<close> the switch gives the same result as
  with both paths empty, and \<open>LoadIdentityFromDisk\<close> is never called.
\<close>

theorem issuer_required:
  assumes "NumberOfArguments w ctx 3 = None"
    and "usePasswordOf ctx = Inr usePassword"
    and "Get (Args ctx) 1 \<noteq> Get (Args ctx) 2"
  shows "(typOf ctx = ''x509'' \<and>
          (String_flag ctx ''profile'' = ''leaf'' \<or>
           String_flag ctx ''profile'' = ''intermediate-ca'') \<longrightarrow>
            (String_flag ctx ''ca'' = [] \<longrightarrow>
               createAction w ctx =
                 ([], Failed (WithStack (Errorf
                        (''Missing value for flag '' @ quoted ''--ca'' @ ''.''
                           @ flagsRequired w (String_flag ctx ''profile'')))))) \<and>
            (String_flag ctx ''ca'' \<noteq> [] \<and> String_flag ctx ''ca-key'' = [] \<longrightarrow>
               createAction w ctx =
                 ([], Failed (WithStack (Errorf
                        (''Missing value for flag '' @ quoted ''--ca-key'' @ ''.''
                           @ flagsRequired w (String_flag ctx ''profile'')))))) \<and>
            (String_flag ctx ''ca'' \<noteq> [] \<and> String_flag ctx ''ca-key'' \<noteq> [] \<longrightarrow>
               (\<exists>later. fst (createAction w ctx) =
                  ELoadIdentityFromDisk (String_flag ctx ''ca'') (String_flag ctx ''ca-key'')
                    # later))) \<and>
         (typOf ctx = ''x509-csr'' \<or>
          typOf ctx = ''x509'' \<and> String_flag ctx ''profile'' = ''root-ca'' \<longrightarrow>
            created w ctx =
              generate w (typOf ctx) (String_flag ctx ''profile'') (Get (Args ctx) 0) [] [] \<and>
            (\<forall>a b. ELoadIdentityFromDisk a b \<notin> set (fst (createAction w ctx))))"
proof (intro conjI impI)
  assume k: "typOf ctx = ''x509'' \<and>
          (String_flag ctx ''profile'' = ''leaf'' \<or>
           String_flag ctx ''profile'' = ''intermediate-ca'')"
    and c: "String_flag ctx ''ca'' = []"
  then show "createAction w ctx =
                 ([], Failed (WithStack (Errorf
                        (''Missing value for flag '' @ quoted ''--ca'' @ ''.''
                           @ flagsRequired w (String_flag ctx ''profile'')))))"
    unfolding createAction_checked [OF assms]
    by (auto simp add: created_def generate_def selectProfile_def loadIssuerIdentity_def)
next
  assume k: "typOf ctx = ''x509'' \<and>
          (String_flag ctx ''profile'' = ''leaf'' \<or>
           String_flag ctx ''profile'' = ''intermediate-ca'')"
    and c: "String_flag ctx ''ca'' \<noteq> [] \<and> String_flag ctx ''ca-key'' = []"
  then show "createAction w ctx =
                 ([], Failed (WithStack (Errorf
                        (''Missing value for flag '' @ quoted ''--ca-key'' @ ''.''
                           @ flagsRequired w (String_flag ctx ''profile'')))))"
    unfolding createAction_checked [OF assms]
    by (auto simp add: created_def generate_def selectProfile_def loadIssuerIdentity_def)
next
  assume k: "typOf ctx = ''x509'' \<and>
          (String_flag ctx ''profile'' = ''leaf'' \<or>
           String_flag ctx ''profile'' = ''intermediate-ca'')"
    and c: "String_flag ctx ''ca'' \<noteq> [] \<and> String_flag ctx ''ca-key'' \<noteq> []"
  then show "\<exists>later. fst (createAction w ctx) =
                  ELoadIdentityFromDisk (String_flag ctx ''ca'') (String_flag ctx ''ca-key'')
                    # later"
    unfolding createAction_checked [OF assms]
    by (auto simp add: created_def generate_def selectProfile_def loadIssuerIdentity_def
          split: sum.splits prod.splits)
next
  assume k: "typOf ctx = ''x509-csr'' \<or>
          typOf ctx = ''x509'' \<and> String_flag ctx ''profile'' = ''root-ca''"
  from generate_without_issuer [OF k]
  show "created w ctx =
          generate w (typOf ctx) (String_flag ctx ''profile'') (Get (Args ctx) 0) [] []"
    by (simp add: created_def)
next
  assume k: "typOf ctx = ''x509-csr'' \<or>
          typOf ctx = ''x509'' \<and> String_flag ctx ''profile'' = ''root-ca''"
  from createAction_never_loads [OF assms k]
  show "\<forall>a b. ELoadIdentityFromDisk a b \<notin> set (fst (createAction w ctx))"
    by blast
qed

text \<open>A leaf without \<open>--ca\<close> and an intermediate without \<open>--ca-key\<close>.\<close>

theorem issuer_required_witness:
  "createAction fix_world
       (fix_ctx [''example.com'', ''leaf.crt'', ''leaf.key''] []
          [(''type'', ''x509''), (''profile'', ''leaf''), (''ca-key'', ''ca.key'')]) =
     ([], Failed (WithStack (Errorf (''Missing value for flag '' @ quoted ''--ca'' @ ''.''
                                       @ flagsRequired fix_world ''leaf'')))) \<and>
   createAction fix_world
       (fix_ctx [''example.com'', ''leaf.crt'', ''leaf.key''] []
          [(''type'', ''x509''), (''profile'', ''intermediate-ca''), (''ca'', ''ca.crt'')]) =
     ([], Failed (WithStack (Errorf (''Missing value for flag '' @ quoted ''--ca-key'' @ ''.''
                                       @ flagsRequired fix_world ''intermediate-ca''))))"
proof -
  let ?args = "[''example.com'', ''leaf.crt'', ''leaf.key'']"
  let ?c1 = "fix_ctx ?args [] [(''type'', ''x509''), (''profile'', ''leaf''), (''ca-key'', ''ca.key'')]"
  let ?c2 = "fix_ctx ?args [] [(''type'', ''x509''), (''profile'', ''intermediate-ca''), (''ca'', ''ca.crt'')]"
  have n1: "NumberOfArguments fix_world ?c1 3 = None" by (simp add: create_eval)
  have u1: "usePasswordOf ?c1 = Inr True" by (simp add: create_eval)
  have d1: "Get (Args ?c1) 1 \<noteq> Get (Args ?c1) 2" by (simp add: create_eval)
  have n2: "NumberOfArguments fix_world ?c2 3 = None" by (simp add: create_eval)
  have u2: "usePasswordOf ?c2 = Inr True" by (simp add: create_eval)
  have d2: "Get (Args ?c2) 1 \<noteq> Get (Args ?c2) 2" by (simp add: create_eval)
  from issuer_required [OF n1 u1 d1]
  have a: "createAction fix_world ?c1 =
     ([], Failed (WithStack (Errorf (''Missing value for flag '' @ quoted ''--ca'' @ ''.''
                                       @ flagsRequired fix_world ''leaf''))))"
    by (simp add: typOf_def fix_ctx_def)
  from issuer_required [OF n2 u2 d2]
  have b: "createAction fix_world ?c2 =
     ([], Failed (WithStack (Errorf (''Missing value for flag '' @ quoted ''--ca-key'' @ ''.''
                                       @ flagsRequired fix_world ''intermediate-ca''))))"
    by (simp add: typOf_def fix_ctx_def)
  from a b show ?thesis by simp
qed

text \<open>
  C7, against the root profile of the specification. With type \<open>x509\<close> and profile
  \<open>root-ca\<close>, an empty subject ends the action with the profile error after the call
  of \<open>NewRootProfile\<close> alone. For a non-empty subject the action goes on to
  \<open>CreateCertificate\<close> with a profile that is a CA, whose issuer is its subject and
  which is signed with the fresh key of the subject itself; \<open>LoadIdentityFromDisk\<close> is
  never called.
\<close>

theorem root_profile:
  assumes "NewRootProfile w = NewRootProfile_spec fresh"
    and "NumberOfArguments w ctx 3 = None"
    and "usePasswordOf ctx = Inr usePassword"
    and "Get (Args ctx) 1 \<noteq> Get (Args ctx) 2"
    and "typOf ctx = ''x509''"
    and "String_flag ctx ''profile'' = ''root-ca''"
  shows "(Get (Args ctx) 0 = [] \<longrightarrow>
            createAction w ctx = ([ENewRootProfile []], Failed (WithStack ProfileError))) \<and>
         (Get (Args ctx) 0 \<noteq> [] \<longrightarrow>
            (\<exists>p later. fst (createAction w ctx) =
                 ENewRootProfile (Get (Args ctx) 0) # ECreateCertificate p # later \<and>
               IsCA p \<and> Subject p = Get (Args ctx) 0 \<and> Issuer p = Get (Args ctx) 0 \<and>
               SubjectKey p = fresh \<and> SignerKey p = fresh) \<and>
            (\<forall>a b. ELoadIdentityFromDisk a b \<notin> set (fst (createAction w ctx))))"
proof (intro conjI impI)
  assume "Get (Args ctx) 0 = []"
  with assms(1,5,6) show "createAction w ctx = ([ENewRootProfile []], Failed (WithStack ProfileError))"
    unfolding createAction_checked [OF assms(2-4)]
    by (simp add: created_def generate_def selectProfile_def NewRootProfile_spec_def)
next
  assume "Get (Args ctx) 0 \<noteq> []"
  with assms(1,5,6)
  show "\<exists>p later. fst (createAction w ctx) =
                 ENewRootProfile (Get (Args ctx) 0) # ECreateCertificate p # later \<and>
               IsCA p \<and> Subject p = Get (Args ctx) 0 \<and> Issuer p = Get (Args ctx) 0 \<and>
               SubjectKey p = fresh \<and> SignerKey p = fresh"
    unfolding createAction_checked [OF assms(2-4)]
    by (simp add: created_def generate_def selectProfile_def NewRootProfile_spec_def
          split: sum.splits)
next
  assume "Get (Args ctx) 0 \<noteq> []"
  from assms(5,6) createAction_never_loads [OF assms(2-4)]
  show "\<forall>a b. ELoadIdentityFromDisk a b \<notin> set (fst (createAction w ctx))"
    by blast
qed

text \<open>The empty subject, and the subject \<open>Root CA\<close>.\<close>

theorem root_profile_witness:
  "createAction fix_world
       (fix_ctx [[], ''root.crt'', ''root.key''] []
          [(''type'', ''x509''), (''profile'', ''root-ca'')]) =
     ([ENewRootProfile []], Failed (WithStack ProfileError)) \<and>
   (\<exists>p later.
      fst (createAction fix_world
             (fix_ctx [''Root CA'', ''root.crt'', ''root.key''] []
                [(''type'', ''x509''), (''profile'', ''root-ca'')])) =
        ENewRootProfile ''Root CA'' # ECreateCertificate p # later \<and>
      IsCA p \<and> Subject p = ''Root CA'' \<and> Issuer p = ''Root CA'' \<and>
      SubjectKey p = 9 \<and> SignerKey p = 9)"
proof -
  let ?flags = "[(''type'', ''x509''), (''profile'', ''root-ca'')]"
  let ?c1 = "fix_ctx [[], ''root.crt'', ''root.key''] [] ?flags"
  let ?c2 = "fix_ctx [''Root CA'', ''root.crt'', ''root.key''] [] ?flags"
  have r: "NewRootProfile fix_world = NewRootProfile_spec 9" by (simp add: fix_world_def)
  have n1: "NumberOfArguments fix_world ?c1 3 = None" by (simp add: create_eval)
  have u1: "usePasswordOf ?c1 = Inr True" by (simp add: create_eval)
  have d1: "Get (Args ?c1) 1 \<noteq> Get (Args ?c1) 2" by (simp add: create_eval)
  have t1: "typOf ?c1 = ''x509''" by (simp add: create_eval)
  have p1: "String_flag ?c1 ''profile'' = ''root-ca''" by (simp add: create_eval)
  have n2: "NumberOfArguments fix_world ?c2 3 = None" by (simp add: create_eval)
  have u2: "usePasswordOf ?c2 = Inr True" by (simp add: create_eval)
  have d2: "Get (Args ?c2) 1 \<noteq> Get (Args ?c2) 2" by (simp add: create_eval)
  have t2: "typOf ?c2 = ''x509''" by (simp add: create_eval)
  have p2: "String_flag ?c2 ''profile'' = ''root-ca''" by (simp add: create_eval)
  from root_profile [OF r n1 u1 d1 t1 p1]
  have a: "createAction fix_world ?c1 = ([ENewRootProfile []], Failed (WithStack ProfileError))"
    by (simp add: fix_ctx_def Get_def)
  from root_profile [OF r n2 u2 d2 t2 p2]
  have b: "\<exists>p later.
      fst (createAction fix_world ?c2) =
        ENewRootProfile ''Root CA'' # ECreateCertificate p # later \<and>
      IsCA p \<and> Subject p = ''Root CA'' \<and> Issuer p = ''Root CA'' \<and>
      SubjectKey p = 9 \<and> SignerKey p = 9"
    by (simp add: fix_ctx_def Get_def)
  from a b show ?thesis by simp
qed

text \<open>
  C10. In a run that has produced the key and the PEM block, the first event of the
  output stage is the write of the certificate file with mode \<open>0600\<close>, and no event
  before it is a prompt for the new key's password or a write. When that write
  succeeds and the prompt fails, or the prompt is answered (or not needed) and
  \<open>WritePrivateKey\<close> fails, the action returns the error; the successful write of the
  certificate file is in the trace and no later call touches that file.
\<close>

theorem certificate_written_first:
  assumes "NumberOfArguments w ctx 3 = None"
    and "usePasswordOf ctx = Inr usePassword"
    and "Get (Args ctx) 1 \<noteq> Get (Args ctx) 2"
    and "created w ctx = (ev, Inr (priv, pubPEM))"
  shows "(\<exists>later. fst (createAction w ctx) =
            ev @ EWriteFile (Get (Args ctx) 1) (EncodeToMemory w pubPEM) 384 # later) \<and>
         filter isOutputEvent ev = [] \<and>
         (WriteFile w (Get (Args ctx) 1) (EncodeToMemory w pubPEM) 384 = None \<longrightarrow>
            (\<forall>e. usePassword \<and>
                  ReadPasswordSubtle w (encryptPrompt (Get (Args ctx) 2)) ''Password''
                    RetryOnEmpty = Inl e \<longrightarrow>
                  createAction w ctx =
                    (ev @ [EWriteFile (Get (Args ctx) 1) (EncodeToMemory w pubPEM) 384,
                           EReadPasswordSubtle (encryptPrompt (Get (Args ctx) 2)) ''Password''
                             RetryOnEmpty],
                     Failed (WithStack e))) \<and>
            (\<forall>pass e. snd (askPassword w usePassword (Get (Args ctx) 2)) = Inr pass \<and>
                  WritePrivateKey w priv pass (Get (Args ctx) 2) = Some e \<longrightarrow>
                  createAction w ctx =
                    (ev @ EWriteFile (Get (Args ctx) 1) (EncodeToMemory w pubPEM) 384
                       # fst (askPassword w usePassword (Get (Args ctx) 2))
                       @ [EWritePrivateKey priv pass (Get (Args ctx) 2)],
                     Failed (WithStack e))))"
proof (intro conjI impI allI)
  show "\<exists>later. fst (createAction w ctx) =
            ev @ EWriteFile (Get (Args ctx) 1) (EncodeToMemory w pubPEM) 384 # later"
    unfolding createAction_checked [OF assms(1-3)] assms(4)
    by (simp add: writeOutputs_def split: option.splits sum.splits prod.splits)
next
  from generate_events [of w "typOf ctx" "String_flag ctx ''profile''" "Get (Args ctx) 0"
      "String_flag ctx ''ca''" "String_flag ctx ''ca-key''"] assms(4)
  show "filter isOutputEvent ev = []" by (simp add: created_def)
next
  fix e
  assume "WriteFile w (Get (Args ctx) 1) (EncodeToMemory w pubPEM) 384 = None"
    and "usePassword \<and>
         ReadPasswordSubtle w (encryptPrompt (Get (Args ctx) 2)) ''Password'' RetryOnEmpty = Inl e"
  then show "createAction w ctx =
                    (ev @ [EWriteFile (Get (Args ctx) 1) (EncodeToMemory w pubPEM) 384,
                           EReadPasswordSubtle (encryptPrompt (Get (Args ctx) 2)) ''Password''
                             RetryOnEmpty],
                     Failed (WithStack e))"
    unfolding createAction_checked [OF assms(1-3)] assms(4)
    by (simp add: writeOutputs_def askPassword_def)
next
  fix pass e
  assume "WriteFile w (Get (Args ctx) 1) (EncodeToMemory w pubPEM) 384 = None"
    and "snd (askPassword w usePassword (Get (Args ctx) 2)) = Inr pass \<and>
         WritePrivateKey w priv pass (Get (Args ctx) 2) = Some e"
  then show "createAction w ctx =
                    (ev @ EWriteFile (Get (Args ctx) 1) (EncodeToMemory w pubPEM) 384
                       # fst (askPassword w usePassword (Get (Args ctx) 2))
                       @ [EWritePrivateKey priv pass (Get (Args ctx) 2)],
                     Failed (WithStack e))"
    unfolding createAction_checked [OF assms(1-3)] assms(4)
    by (auto simp add: writeOutputs_def split: prod.splits)
qed

text \<open>The terminal is closed when the password is asked for: \<open>root.crt\<close> is on disk.\<close>

theorem certificate_written_first_witness:
  "createAction (fix_world\<lparr>ReadPasswordSubtle := \<lambda>prompt label opt. Inl (Lib ''EOF'')\<rparr>)
       (fix_ctx [''Root CA'', ''root.crt'', ''root.key''] []
          [(''type'', ''x509''), (''profile'', ''root-ca'')]) =
     ([ENewRootProfile ''Root CA'',
       ECreateCertificate \<lparr>Subject = ''Root CA'', Issuer = ''Root CA'', IsCA = True,
                            SubjectKey = 9, SignerKey = 9\<rparr>,
       EWriteFile ''root.crt'' [1, 4] 384,
       EReadPasswordSubtle (encryptPrompt ''root.key'') ''Password'' RetryOnEmpty],
      Failed (WithStack (Lib ''EOF'')))"
proof -
  let ?w = "fix_world\<lparr>ReadPasswordSubtle := \<lambda>prompt label opt. Inl (Lib ''EOF'')\<rparr>"
  let ?ctx = "fix_ctx [''Root CA'', ''root.crt'', ''root.key''] []
                [(''type'', ''x509''), (''profile'', ''root-ca'')]"
  let ?p = "\<lparr>Subject = ''Root CA'', Issuer = ''Root CA'', IsCA = True,
              SubjectKey = 9::nat, SignerKey = 9\<rparr>"
  let ?ev = "[ENewRootProfile ''Root CA'', ECreateCertificate ?p]
               :: (nat, nat, nat profile) event list"
  let ?pem = "\<lparr>Type = ''CERTIFICATE'', Headers = [], Bytes = [4]\<rparr>"
  have n: "NumberOfArguments ?w ?ctx 3 = None" by (simp add: create_eval)
  have u: "usePasswordOf ?ctx = Inr True" by (simp add: create_eval)
  have d: "Get (Args ?ctx) 1 \<noteq> Get (Args ?ctx) 2" by (simp add: create_eval)
  have c: "created ?w ?ctx = (?ev, Inr (9, ?pem))" by (simp add: create_eval)
  from certificate_written_first [OF n u d c] show ?thesis
    by (simp add: fix_world_def fix_ctx_def Get_def fix_EncodeToMemory_def)
qed

end
